theory Spec2Isabelle
  imports Main "HOL-Library.Word"
begin

unbundle bit_operations_syntax

section \<open>Python exceptions\<close>

text \<open>
  The exception classes that the reader can raise, with the part of Python's class
  hierarchy they live in.  \<open>AvaReadException\<close> is the only class declared by the package
  (\<^verbatim>\<open>class AvaReadException(BaseException)\<close>); the others are built in
  (\<open>StructError\<close> stands for \<^verbatim>\<open>struct.error\<close>).
\<close>

datatype exc_class =
    BaseException
  | Exception
  | AvaReadException
  | OSError
  | FileNotFoundError
  | LookupError
  | IndexError
  | KeyError
  | AttributeError
  | TypeError
  | ValueError
  | UnicodeDecodeError
  | StructError
  | IsADirectoryError

text \<open>The direct base class of each class (\<open>None\<close> for the root).\<close>

fun base_class :: "exc_class \<Rightarrow> exc_class option" where
  "base_class BaseException = None"
| "base_class Exception = Some BaseException"
| "base_class AvaReadException = Some BaseException"
| "base_class OSError = Some Exception"
| "base_class FileNotFoundError = Some OSError"
| "base_class LookupError = Some Exception"
| "base_class IndexError = Some LookupError"
| "base_class KeyError = Some LookupError"
| "base_class AttributeError = Some Exception"
| "base_class TypeError = Some Exception"
| "base_class ValueError = Some Exception"
| "base_class UnicodeDecodeError = Some ValueError"
| "base_class StructError = Some Exception"
| "base_class IsADirectoryError = Some OSError"

text \<open>
  The chain of classes from a class up to the root.  The hierarchy above has depth
  at most four, so four steps of \<open>base_class\<close> reach the root from everywhere.
\<close>

fun ancestors :: "nat \<Rightarrow> exc_class \<Rightarrow> exc_class list" where
  "ancestors 0 c = [c]"
| "ancestors (Suc n) c =
     (case base_class c of None \<Rightarrow> [c] | Some b \<Rightarrow> c # ancestors n b)"

definition issubclass :: "exc_class \<Rightarrow> exc_class \<Rightarrow> bool" where
  "issubclass c d = (d \<in> set (ancestors 4 c))"

text \<open>
  The outcome of running a computation under
  \<^verbatim>\<open>try: ... except Exception: ...\<close>: the handler takes an exception exactly when its
  class is a subclass of \<open>Exception\<close>; every other exception leaves the \<^verbatim>\<open>try\<close>
  statement unhandled.
\<close>

datatype 'a outcome = Returned 'a | Handled exc_class | Propagated exc_class

definition try_except_Exception :: "exc_class + 'a \<Rightarrow> 'a outcome" where
  "try_except_Exception r =
     (case r of
        Inr v \<Rightarrow> Returned v
      | Inl e \<Rightarrow> if issubclass e Exception then Handled e else Propagated e)"

text \<open>Sequencing of computations that may raise.\<close>

definition bind_exc :: "exc_class + 'a \<Rightarrow> ('a \<Rightarrow> exc_class + 'b) \<Rightarrow> exc_class + 'b" where
  "bind_exc m f = (case m of Inl e \<Rightarrow> Inl e | Inr v \<Rightarrow> f v)"

section \<open>Timestamps\<close>

text \<open>
  Python's \<^verbatim>\<open>datetime(year, month, day, hour, minute)\<close>: the constructor of the
  standard library checks every field and raises \<open>ValueError\<close> outside
  \<open>1 \<le> year \<le> 9999\<close>, \<open>1 \<le> month \<le> 12\<close>, \<open>1 \<le> day \<le> days_in_month\<close>,
  \<open>0 \<le> hour \<le> 23\<close>, \<open>0 \<le> minute \<le> 59\<close>.  Seconds and microseconds are not
  passed by the reader and stay 0.
\<close>

record datetime =
  year :: int
  month :: int
  day :: int
  hour :: int
  minute :: int

definition is_leap :: "int \<Rightarrow> bool" where
  "is_leap y =
     (if y mod 4 = 0 then (if y mod 100 = 0 then y mod 400 = 0 else True) else False)"

definition days_in_month :: "int \<Rightarrow> int \<Rightarrow> int" where
  "days_in_month y m =
     (if m = 2 then (if is_leap y then 29 else 28)
      else if m = 4 \<or> m = 6 \<or> m = 9 \<or> m = 11 then 30
      else 31)"

definition mk_datetime :: "int \<Rightarrow> int \<Rightarrow> int \<Rightarrow> int \<Rightarrow> int \<Rightarrow> exc_class + datetime" where
  "mk_datetime y mo d h mi =
     (if y < 1 \<or> 9999 < y then Inl ValueError
      else if mo < 1 \<or> 12 < mo then Inl ValueError
      else if d < 1 \<or> days_in_month y mo < d then Inl ValueError
      else if h < 0 \<or> 23 < h then Inl ValueError
      else if mi < 0 \<or> 59 < mi then Inl ValueError
      else Inr \<lparr>year = y, month = mo, day = d, hour = h, minute = mi\<rparr>)"

text \<open>
  \<^verbatim>\<open>_extract_datetime(timestamp)\<close> of \<^verbatim>\<open>reader.py\<close>.  Python's \<^verbatim>\<open>>>\<close> on its unbounded
  integers is \<open>drop_bit\<close> on \<open>int\<close>, and \<^verbatim>\<open>%\<close> with a positive modulus is \<open>mod\<close>.
\<close>

definition extract_datetime :: "int \<Rightarrow> exc_class + datetime" where
  "extract_datetime ts =
     (let y = drop_bit 20 ts;
          mo = drop_bit 16 ts mod 16;
          d = drop_bit 11 ts mod 32;
          h = drop_bit 6 ts mod 32;
          mi = ts mod 64
      in mk_datetime y mo d h mi)"

text \<open>
  The packing is not part of the reader (it only decodes).  \<open>pack_timestamp\<close> follows the
  bit layout that the specification documents: minute in bits 0-5, hour in bits 6-10,
  day in bits 11-15, month in bits 16-19, year from bit 20 on.
\<close>

definition pack_timestamp :: "int \<Rightarrow> int \<Rightarrow> int \<Rightarrow> int \<Rightarrow> int \<Rightarrow> int" where
  "pack_timestamp y mo d h mi =
     push_bit 20 y OR push_bit 16 mo OR push_bit 11 d OR push_bit 6 h OR mi"

section \<open>Bytes, text and numbers\<close>

type_synonym byte = "8 word"

text \<open>A Python \<^verbatim>\<open>str\<close> is a sequence of Unicode code points.\<close>

type_synonym unicode = "nat list"

definition ascii :: "string \<Rightarrow> unicode" where
  "ascii s = map of_char s"

text \<open>
  Floating-point values are kept symbolic: a value read from a file is its bit
  pattern, and the two operations that the reader performs on floats (true division of
  integers and subtraction) are constructors.  Equal terms denote equal floats, and
  nothing is claimed about rounding.  \<^verbatim>\<open>numpy.zeros\<close> fills an array with \<open>Float64 0\<close>.
\<close>

datatype pyfloat =
    Float32 "32 word"
  | Float64 "64 word"
  | TrueDiv int int
  | FSub pyfloat pyfloat

text \<open>Little-endian integers, as \<^verbatim>\<open>ctypes\<close> and \<^verbatim>\<open>struct\<close> read them on the usual hosts.\<close>

fun le_nat :: "byte list \<Rightarrow> nat" where
  "le_nat [] = 0"
| "le_nat (b # bs) = unat b + 256 * le_nat bs"

fun le_word :: "byte list \<Rightarrow> 'a::len word" where
  "le_word [] = 0"
| "le_word (b # bs) = ucast b + push_bit 8 (le_word bs)"

definition le_signed :: "byte list \<Rightarrow> int" where
  "le_signed bs =
     (let u = int (le_nat bs); w = 8 * length bs
      in if w = 0 then 0 else if 2 ^ (w - 1) \<le> u then u - 2 ^ w else u)"

definition sl :: "nat \<Rightarrow> nat \<Rightarrow> 'a list \<Rightarrow> 'a list" where
  "sl off n xs = take n (drop off xs)"

fun chunks :: "nat \<Rightarrow> nat \<Rightarrow> 'a list \<Rightarrow> 'a list list" where
  "chunks sz 0 xs = []"
| "chunks sz (Suc k) xs = take sz xs # chunks sz k (drop sz xs)"

text \<open>
  A \<^verbatim>\<open>c_char\<close> array read as an attribute of a \<^verbatim>\<open>ctypes\<close> structure is the \<^verbatim>\<open>bytes\<close>
  up to the first NUL.
\<close>

definition is_nul :: "byte \<Rightarrow> bool" where
  "is_nul b = (b = 0)"

definition c_char_value :: "byte list \<Rightarrow> byte list" where
  "c_char_value bs = takeWhile (\<lambda>b. Not (is_nul b)) bs"

subsection \<open>UTF-8\<close>

text \<open>
  One step of CPython's UTF-8 decoder at the head of a non-empty input: a character
  with the number of bytes it takes, an invalid sequence with the number of bytes the error
  covers, or a sequence cut off by the end of the input (the error covers the rest).
\<close>

datatype utf8_step = Char nat nat | Bad nat | Truncated

definition is_cont :: "nat \<Rightarrow> bool" where
  "is_cont c = (128 \<le> c \<and> c < 192)"

definition second3 :: "nat \<Rightarrow> nat \<Rightarrow> bool" where
  "second3 c c1 =
     (if is_cont c1
      then (if c = 224 then 160 \<le> c1 else if c = 237 then c1 < 160 else True)
      else False)"

definition second4 :: "nat \<Rightarrow> nat \<Rightarrow> bool" where
  "second4 c c1 =
     (if is_cont c1
      then (if c = 240 then 144 \<le> c1 else if c = 244 then c1 < 144 else True)
      else False)"

definition utf8_step :: "nat \<Rightarrow> nat list \<Rightarrow> utf8_step" where
  "utf8_step c rest =
     (if c < 128 then Char c 1
      else if c < 194 then Bad 1
      else if c < 224 then
        (case rest of
           [] \<Rightarrow> Truncated
         | c1 # _ \<Rightarrow> if is_cont c1 then Char ((c - 192) * 64 + (c1 - 128)) 2 else Bad 1)
      else if c < 240 then
        (case rest of
           [] \<Rightarrow> Truncated
         | [c1] \<Rightarrow> if second3 c c1 then Truncated else Bad 1
         | c1 # c2 # _ \<Rightarrow>
             if second3 c c1
             then (if is_cont c2
                   then Char ((c - 224) * 4096 + (c1 - 128) * 64 + (c2 - 128)) 3
                   else Bad 2)
             else Bad 1)
      else if c < 245 then
        (case rest of
           [] \<Rightarrow> Truncated
         | [c1] \<Rightarrow> if second4 c c1 then Truncated else Bad 1
         | [c1, c2] \<Rightarrow>
             if second4 c c1 then (if is_cont c2 then Truncated else Bad 2) else Bad 1
         | c1 # c2 # c3 # _ \<Rightarrow>
             if second4 c c1
             then (if is_cont c2
                   then (if is_cont c3
                         then Char ((c - 240) * 262144 + (c1 - 128) * 4096
                                     + (c2 - 128) * 64 + (c3 - 128)) 4
                         else Bad 3)
                   else Bad 2)
             else Bad 1)
      else Bad 1)"

text \<open>
  \<^verbatim>\<open>bytes.decode()\<close> (strict) raises \<open>UnicodeDecodeError\<close> at the first error;
  \<^verbatim>\<open>bytes.decode("utf-8", errors="ignore")\<close> drops the bytes each error covers.  The
  fuel is the number of bytes left: every step takes at least one.
\<close>

fun utf8_decode :: "nat \<Rightarrow> bool \<Rightarrow> nat list \<Rightarrow> exc_class + unicode" where
  "utf8_decode 0 ignore bs = Inr []"
| "utf8_decode (Suc fuel) ignore [] = Inr []"
| "utf8_decode (Suc fuel) ignore (c # rest) =
     (case utf8_step c rest of
        Char cp n \<Rightarrow>
          (case utf8_decode fuel ignore (drop (n - 1) rest) of
             Inl e \<Rightarrow> Inl e
           | Inr s \<Rightarrow> Inr (cp # s))
      | Bad n \<Rightarrow>
          if ignore then utf8_decode fuel ignore (drop (n - 1) rest)
          else Inl UnicodeDecodeError
      | Truncated \<Rightarrow> if ignore then Inr [] else Inl UnicodeDecodeError)"

definition decode :: "byte list \<Rightarrow> exc_class + unicode" where
  "decode bs = utf8_decode (length bs) False (map unat bs)"

definition decode_ignore :: "byte list \<Rightarrow> unicode" where
  "decode_ignore bs =
     (case utf8_decode (length bs) True (map unat bs) of Inl e \<Rightarrow> [] | Inr s \<Rightarrow> s)"

text \<open>
  \<^verbatim>\<open>str.upper()\<close> on the ASCII letters.  Other characters are left as they are: the
  reader only upper-cases the text of at most three bytes, and then compares it with
  \<^verbatim>\<open>"AVS"\<close> and \<^verbatim>\<open>"STR"\<close>; a text of at most three bytes with a character outside ASCII
  has no upper-case form equal to one of these.
\<close>

definition upper :: "unicode \<Rightarrow> unicode" where
  "upper s = map (\<lambda>c. if 97 \<le> c \<and> c \<le> 122 then c - 32 else c) s"

subsection \<open>\<^verbatim>\<open>int(bytes)\<close>\<close>

text \<open>
  Python's \<^verbatim>\<open>int\<close> on a \<^verbatim>\<open>bytes\<close> object, base 10: optional white space, an optional
  sign, decimal digits (single underscores are allowed between digits), optional white
  space, and nothing else; \<open>ValueError\<close> otherwise.
\<close>

definition is_space :: "byte \<Rightarrow> bool" where
  "is_space b = (b = 32 \<or> b = 9 \<or> b = 10 \<or> b = 11 \<or> b = 12 \<or> b = 13)"

definition is_digit :: "byte \<Rightarrow> bool" where
  "is_digit b = (48 \<le> b \<and> b \<le> 57)"

text \<open>
  The digits after the first one: \<open>digits_value acc bs\<close> returns the value and the
  rest of the input that is not part of the number.  An underscore belongs to
  the number only when a digit follows it.
\<close>

fun digits_value :: "int \<Rightarrow> byte list \<Rightarrow> int \<times> byte list" where
  "digits_value acc [] = (acc, [])"
| "digits_value acc [b] = (if is_digit b then (acc * 10 + (uint b - 48), []) else (acc, [b]))"
| "digits_value acc (b # c # bs) =
     (if is_digit b then digits_value (acc * 10 + (uint b - 48)) (c # bs)
      else if b = 95 \<and> is_digit c then digits_value acc (c # bs)
      else (acc, b # c # bs))"

definition unsigned_literal :: "byte list \<Rightarrow> exc_class + int" where
  "unsigned_literal bs =
     (case bs of
        [] \<Rightarrow> Inl ValueError
      | b # rest \<Rightarrow>
          if is_digit b then
            (case digits_value 0 (b # rest) of
               (v, left) \<Rightarrow> if dropWhile is_space left = [] then Inr v else Inl ValueError)
          else Inl ValueError)"

definition py_int :: "byte list \<Rightarrow> exc_class + int" where
  "py_int bs =
     (case dropWhile is_space bs of
        [] \<Rightarrow> Inl ValueError
      | b # rest \<Rightarrow>
          if b = 43 then unsigned_literal rest
          else if b = 45 then
            (case unsigned_literal rest of Inl e \<Rightarrow> Inl e | Inr v \<Rightarrow> Inr (- v))
          else unsigned_literal (b # rest))"

text \<open>
  \<^verbatim>\<open>a / b < k\<close> for integers \<open>a\<close>, \<open>k\<close> and a positive integer \<open>b\<close>.  The reader divides a
  number of at most two characters by 10 and compares with 8; the float quotient of such
  a number is below 8 exactly when the exact quotient is.
\<close>

definition truediv_less :: "int \<Rightarrow> int \<Rightarrow> int \<Rightarrow> bool" where
  "truediv_less a b k = (a < k * b)"

section \<open>The C structures of \<^verbatim>\<open>AvaTypes.py\<close>\<close>

text \<open>
  Every structure is packed (\<^verbatim>\<open>_pack_ = 1\<close>), so a field starts where the one before
  it ends.  A record holds the content of the fields: integers as words of the declared
  width, \<^verbatim>\<open>c_float\<close> and \<^verbatim>\<open>c_double\<close> as their bit patterns, arrays as lists.  The
  \<open>_from_bytes\<close> functions cut the raw bytes of a structure into its fields.  The fields
  of the two information blocks and of the two preambles have the same names in the
  source; those of the STR variants carry the prefix \<open>STR_\<close> here.
\<close>

record AvsIdentityStruct =
  SerialNumber :: "byte list"
  UserFriendlyName :: "byte list"
  Status :: "8 word"

record DarkCorrectionStruct =
  Enable :: "8 word"
  ForgetPercentage :: "8 word"

record SmoothingStruct =
  SmoothPix :: "16 word"
  SmoothModel :: "8 word"

record TriggerStruct =
  Mode :: "8 word"
  Source :: "8 word"
  SourceType :: "8 word"

record ControlSettingsStruct =
  StrobeControl :: "16 word"
  LaserDelay :: "32 word"
  LaserWidth :: "32 word"
  LaserWaveLength :: "32 word"
  StoreToRam :: "16 word"

record MeasConfigStruct =
  StartPixel :: "16 word"
  StopPixel :: "16 word"
  IntegrationTime :: "32 word"
  IntegrationDelay :: "32 word"
  NrAverages :: "32 word"
  CorDynDark :: DarkCorrectionStruct
  Smoothing :: SmoothingStruct
  SaturationDetection :: "8 word"
  Trigger :: TriggerStruct
  Control :: ControlSettingsStruct

record MiscInfoStruct =
  file_datetime :: "32 word"
  detectorTemp :: "32 word"
  boardTemp :: "32 word"
  skip_float :: "32 word"
  ColorTemperature :: "32 word"
  CalIntTime :: "32 word"

record AVSPreamble =
  FileType :: "byte list"
  Version :: "byte list"
  channels :: "8 word"

record AVSInfoBlock =
  blockLength :: "16 word"
  Unused1 :: "byte list"
  channelIndex :: "8 word"
  measurementEnum :: "8 word"
  Unused2 :: "byte list"
  ID :: AvsIdentityStruct
  Measurement :: MeasConfigStruct
  timestamp :: "32 word"
  Misc :: MiscInfoStruct
  aFit :: "64 word list"
  comment :: "byte list"

record STRPreamble =
  STR_FileType :: "byte list"
  STR_Version :: "byte list"
  frames :: "16 word"

record STRInfoBlock =
  STR_Unused :: "byte list"
  STR_ID :: AvsIdentityStruct
  STR_Measurement :: MeasConfigStruct
  STR_Unused1 :: "byte list"
  STR_Misc :: MiscInfoStruct
  STR_Unused2 :: "byte list"
  STR_comment :: "byte list"

definition AvsIdentityStruct_from_bytes :: "byte list \<Rightarrow> AvsIdentityStruct" where
  "AvsIdentityStruct_from_bytes b =
     \<lparr>SerialNumber = sl 0 10 b,
      UserFriendlyName = sl 10 64 b,
      Status = le_word (sl 74 1 b)\<rparr>"

definition DarkCorrectionStruct_from_bytes :: "byte list \<Rightarrow> DarkCorrectionStruct" where
  "DarkCorrectionStruct_from_bytes b =
     \<lparr>Enable = le_word (sl 0 1 b), ForgetPercentage = le_word (sl 1 1 b)\<rparr>"

definition SmoothingStruct_from_bytes :: "byte list \<Rightarrow> SmoothingStruct" where
  "SmoothingStruct_from_bytes b =
     \<lparr>SmoothPix = le_word (sl 0 2 b), SmoothModel = le_word (sl 2 1 b)\<rparr>"

definition TriggerStruct_from_bytes :: "byte list \<Rightarrow> TriggerStruct" where
  "TriggerStruct_from_bytes b =
     \<lparr>Mode = le_word (sl 0 1 b), Source = le_word (sl 1 1 b), SourceType = le_word (sl 2 1 b)\<rparr>"

definition ControlSettingsStruct_from_bytes :: "byte list \<Rightarrow> ControlSettingsStruct" where
  "ControlSettingsStruct_from_bytes b =
     \<lparr>StrobeControl = le_word (sl 0 2 b),
      LaserDelay = le_word (sl 2 4 b),
      LaserWidth = le_word (sl 6 4 b),
      LaserWaveLength = le_word (sl 10 4 b),
      StoreToRam = le_word (sl 14 2 b)\<rparr>"

definition MeasConfigStruct_from_bytes :: "byte list \<Rightarrow> MeasConfigStruct" where
  "MeasConfigStruct_from_bytes b =
     \<lparr>StartPixel = le_word (sl 0 2 b),
      StopPixel = le_word (sl 2 2 b),
      IntegrationTime = le_word (sl 4 4 b),
      IntegrationDelay = le_word (sl 8 4 b),
      NrAverages = le_word (sl 12 4 b),
      CorDynDark = DarkCorrectionStruct_from_bytes (sl 16 2 b),
      Smoothing = SmoothingStruct_from_bytes (sl 18 3 b),
      SaturationDetection = le_word (sl 21 1 b),
      Trigger = TriggerStruct_from_bytes (sl 22 3 b),
      Control = ControlSettingsStruct_from_bytes (sl 25 16 b)\<rparr>"

definition MiscInfoStruct_from_bytes :: "byte list \<Rightarrow> MiscInfoStruct" where
  "MiscInfoStruct_from_bytes b =
     \<lparr>file_datetime = le_word (sl 0 4 b),
      detectorTemp = le_word (sl 4 4 b),
      boardTemp = le_word (sl 8 4 b),
      skip_float = le_word (sl 12 4 b),
      ColorTemperature = le_word (sl 16 4 b),
      CalIntTime = le_word (sl 20 4 b)\<rparr>"

definition AVSPreamble_from_bytes :: "byte list \<Rightarrow> AVSPreamble" where
  "AVSPreamble_from_bytes b =
     \<lparr>FileType = sl 0 3 b, Version = sl 3 2 b, channels = le_word (sl 5 1 b)\<rparr>"

definition AVSInfoBlock_from_bytes :: "byte list \<Rightarrow> AVSInfoBlock" where
  "AVSInfoBlock_from_bytes b =
     \<lparr>blockLength = le_word (sl 0 2 b),
      Unused1 = sl 2 2 b,
      channelIndex = le_word (sl 4 1 b),
      measurementEnum = le_word (sl 5 1 b),
      Unused2 = sl 6 2 b,
      ID = AvsIdentityStruct_from_bytes (sl 8 75 b),
      Measurement = MeasConfigStruct_from_bytes (sl 83 41 b),
      timestamp = le_word (sl 124 4 b),
      Misc = MiscInfoStruct_from_bytes (sl 128 24 b),
      aFit = map le_word (chunks 8 5 (sl 152 40 b)),
      comment = sl 192 130 b\<rparr>"

definition STRPreamble_from_bytes :: "byte list \<Rightarrow> STRPreamble" where
  "STRPreamble_from_bytes b =
     \<lparr>STR_FileType = sl 0 3 b, STR_Version = sl 3 2 b, frames = le_word (sl 5 2 b)\<rparr>"

definition STRInfoBlock_from_bytes :: "byte list \<Rightarrow> STRInfoBlock" where
  "STRInfoBlock_from_bytes b =
     \<lparr>STR_Unused = sl 0 5 b,
      STR_ID = AvsIdentityStruct_from_bytes (sl 5 75 b),
      STR_Measurement = MeasConfigStruct_from_bytes (sl 80 41 b),
      STR_Unused1 = sl 121 7 b,
      STR_Misc = MiscInfoStruct_from_bytes (sl 128 24 b),
      STR_Unused2 = sl 152 47 b,
      STR_comment = sl 199 130 b\<rparr>"

text \<open>\<^verbatim>\<open>sizeof\<close> of the structures that are read from a file.\<close>

definition sizeof_AVSPreamble :: nat where "sizeof_AVSPreamble = 6"
definition sizeof_AVSInfoBlock :: nat where "sizeof_AVSInfoBlock = 322"
definition sizeof_STRPreamble :: nat where "sizeof_STRPreamble = 7"
definition sizeof_STRInfoBlock :: nat where "sizeof_STRInfoBlock = 329"
definition sizeof_c_double :: nat where "sizeof_c_double = 8"

subsection \<open>Structures as \<^verbatim>\<open>StructMapping\<close> sees them\<close>

text \<open>
  \<^verbatim>\<open>StructMapping\<close> works on any \<^verbatim>\<open>MappableStructure\<close> through its \<^verbatim>\<open>_fields_\<close> (names
  in declaration order, here with the current value of each field) and its \<^verbatim>\<open>_map\<close>
  (field name to enumeration).  A value of a field is what \<^verbatim>\<open>getattr(struct, name)\<close>
  returns: a Python integer for the integer types (\<^verbatim>\<open>c_byte\<close> is signed), a float, a
  \<^verbatim>\<open>c_char\<close> array, another array, or a nested structure.
\<close>

datatype enum_class = DeviceStatus | MeasurementEnum | TrigMode | TrigSource | TrigKind

fun enum_values :: "enum_class \<Rightarrow> int list" where
  "enum_values DeviceStatus = [0, 1, 2, 3, 4, 5, 6, 7]"
| "enum_values MeasurementEnum = [0, 1, 2, 3, 4, 5, 6, 7]"
| "enum_values TrigMode = [0, 1]"
| "enum_values TrigSource = [2, 0, 1]"
| "enum_values TrigKind = [0, 1]"

datatype cdata =
    CInt int
  | CFloat pyfloat
  | CChars "byte list"
  | CIntArray "int list"
  | CDoubleArray "pyfloat list"
  | CStruct cstruct
and cstruct =
    MappableStructure (class_name: string) (c_fields: "(string \<times> cdata) list")
      (c_map: "(string \<times> enum_class) list")

definition AvsIdentityStruct_struct :: "AvsIdentityStruct \<Rightarrow> cstruct" where
  "AvsIdentityStruct_struct x =
     MappableStructure ''AvsIdentityStruct''
       [(''SerialNumber'', CChars (SerialNumber x)),
        (''UserFriendlyName'', CChars (UserFriendlyName x)),
        (''Status'', CInt (uint (Status x)))]
       [(''Status'', DeviceStatus)]"

definition DarkCorrectionStruct_struct :: "DarkCorrectionStruct \<Rightarrow> cstruct" where
  "DarkCorrectionStruct_struct x =
     MappableStructure ''DarkCorrectionStruct''
       [(''Enable'', CInt (uint (Enable x))),
        (''ForgetPercentage'', CInt (uint (ForgetPercentage x)))]
       []"

definition SmoothingStruct_struct :: "SmoothingStruct \<Rightarrow> cstruct" where
  "SmoothingStruct_struct x =
     MappableStructure ''SmoothingStruct''
       [(''SmoothPix'', CInt (uint (SmoothPix x))),
        (''SmoothModel'', CInt (uint (SmoothModel x)))]
       []"

definition TriggerStruct_struct :: "TriggerStruct \<Rightarrow> cstruct" where
  "TriggerStruct_struct x =
     MappableStructure ''TriggerStruct''
       [(''Mode'', CInt (uint (Mode x))),
        (''Source'', CInt (uint (Source x))),
        (''SourceType'', CInt (uint (SourceType x)))]
       [(''Mode'', TrigMode), (''Source'', TrigSource), (''SourceType'', TrigKind)]"

definition ControlSettingsStruct_struct :: "ControlSettingsStruct \<Rightarrow> cstruct" where
  "ControlSettingsStruct_struct x =
     MappableStructure ''ControlSettingsStruct''
       [(''StrobeControl'', CInt (uint (StrobeControl x))),
        (''LaserDelay'', CInt (uint (LaserDelay x))),
        (''LaserWidth'', CInt (uint (LaserWidth x))),
        (''LaserWaveLength'', CFloat (Float32 (LaserWaveLength x))),
        (''StoreToRam'', CInt (uint (StoreToRam x)))]
       []"

definition MeasConfigStruct_struct :: "MeasConfigStruct \<Rightarrow> cstruct" where
  "MeasConfigStruct_struct x =
     MappableStructure ''MeasConfigStruct''
       [(''StartPixel'', CInt (uint (StartPixel x))),
        (''StopPixel'', CInt (uint (StopPixel x))),
        (''IntegrationTime'', CFloat (Float32 (IntegrationTime x))),
        (''IntegrationDelay'', CInt (uint (IntegrationDelay x))),
        (''NrAverages'', CInt (uint (NrAverages x))),
        (''CorDynDark'', CStruct (DarkCorrectionStruct_struct (CorDynDark x))),
        (''Smoothing'', CStruct (SmoothingStruct_struct (Smoothing x))),
        (''SaturationDetection'', CInt (uint (SaturationDetection x))),
        (''Trigger'', CStruct (TriggerStruct_struct (Trigger x))),
        (''Control'', CStruct (ControlSettingsStruct_struct (Control x)))]
       []"

definition MiscInfoStruct_struct :: "MiscInfoStruct \<Rightarrow> cstruct" where
  "MiscInfoStruct_struct x =
     MappableStructure ''MiscInfoStruct''
       [(''file_datetime'', CInt (uint (file_datetime x))),
        (''detectorTemp'', CFloat (Float32 (detectorTemp x))),
        (''boardTemp'', CFloat (Float32 (boardTemp x))),
        (''skip_float'', CFloat (Float32 (skip_float x))),
        (''ColorTemperature'', CFloat (Float32 (ColorTemperature x))),
        (''CalIntTime'', CFloat (Float32 (CalIntTime x)))]
       []"

definition AVSInfoBlock_struct :: "AVSInfoBlock \<Rightarrow> cstruct" where
  "AVSInfoBlock_struct x =
     MappableStructure ''AVSInfoBlock''
       [(''blockLength'', CInt (uint (blockLength x))),
        (''Unused1'', CIntArray (map sint (Unused1 x))),
        (''channelIndex'', CInt (sint (channelIndex x))),
        (''measurementEnum'', CInt (uint (measurementEnum x))),
        (''Unused2'', CIntArray (map sint (Unused2 x))),
        (''ID'', CStruct (AvsIdentityStruct_struct (ID x))),
        (''Measurement'', CStruct (MeasConfigStruct_struct (Measurement x))),
        (''timestamp'', CInt (uint (timestamp x))),
        (''Misc'', CStruct (MiscInfoStruct_struct (Misc x))),
        (''aFit'', CDoubleArray (map Float64 (aFit x))),
        (''comment'', CChars (comment x))]
       [(''measurementEnum'', MeasurementEnum)]"

definition STRInfoBlock_struct :: "STRInfoBlock \<Rightarrow> cstruct" where
  "STRInfoBlock_struct x =
     MappableStructure ''STRInfoBlock''
       [(''Unused'', CIntArray (map sint (STR_Unused x))),
        (''ID'', CStruct (AvsIdentityStruct_struct (STR_ID x))),
        (''Measurement'', CStruct (MeasConfigStruct_struct (STR_Measurement x))),
        (''Unused1'', CIntArray (map sint (STR_Unused1 x))),
        (''Misc'', CStruct (MiscInfoStruct_struct (STR_Misc x))),
        (''Unused2'', CIntArray (map sint (STR_Unused2 x))),
        (''comment'', CChars (STR_comment x))]
       []"

section \<open>\<^verbatim>\<open>StructMapping\<close>\<close>

text \<open>
  The proxy object of \<^verbatim>\<open>reader.py\<close>: its \<^verbatim>\<open>__init__\<close> stores the class name, the list
  of field names and the structure.
\<close>

datatype StructMapping =
  StructMapping (mapping_name: string) (fields: "string list") (struct: cstruct)

definition StructMapping_init :: "cstruct \<Rightarrow> StructMapping" where
  "StructMapping_init s = StructMapping (class_name s) (map fst (c_fields s)) s"

text \<open>What an attribute of a mapping evaluates to.\<close>

datatype pyvalue =
    PyInt int
  | PyFloat pyfloat
  | PyStr unicode
  | PyIntArray "int list"
  | PyFloatArray "pyfloat list"
  | PyEnum enum_class int
  | PyMapping StructMapping

text \<open>Calling an \<^verbatim>\<open>IntEnum\<close> class on a value that is not one of its members raises \<open>ValueError\<close>.\<close>

definition enum_call :: "enum_class \<Rightarrow> cdata \<Rightarrow> exc_class + pyvalue" where
  "enum_call e v =
     (case v of
        CInt i \<Rightarrow> if i \<in> set (enum_values e) then Inr (PyEnum e i) else Inl ValueError
      | _ \<Rightarrow> Inl ValueError)"

text \<open>
  \<^verbatim>\<open>StructMapping.__getattr__\<close>.  Python calls it for a name that is not an attribute of
  the object itself (\<^verbatim>\<open>_name\<close>, \<^verbatim>\<open>fields\<close>, \<^verbatim>\<open>struct\<close>, \<^verbatim>\<open>print\<close>).  The branches are in
  the order of the source: arrays first (\<^verbatim>\<open>c_char\<close> arrays become text, the others
  numpy arrays), then the fields of \<^verbatim>\<open>_map\<close>, then nested structures, then scalars.
\<close>

definition StructMapping_getattr :: "StructMapping \<Rightarrow> string \<Rightarrow> exc_class + pyvalue" where
  "StructMapping_getattr self name =
     (if name \<in> set (map fst (c_fields (struct self))) then
        (case map_of (c_fields (struct self)) name of
           None \<Rightarrow> Inl AttributeError
         | Some v \<Rightarrow>
             (case v of
                CChars bs \<Rightarrow> Inr (PyStr (decode_ignore (c_char_value bs)))
              | CIntArray xs \<Rightarrow> Inr (PyIntArray xs)
              | CDoubleArray xs \<Rightarrow> Inr (PyFloatArray xs)
              | _ \<Rightarrow>
                  (case map_of (c_map (struct self)) name of
                     Some e \<Rightarrow> enum_call e v
                   | None \<Rightarrow>
                       (case v of
                          CStruct s \<Rightarrow> Inr (PyMapping (StructMapping_init s))
                        | CInt i \<Rightarrow> Inr (PyInt i)
                        | CFloat x \<Rightarrow> Inr (PyFloat x)
                        | _ \<Rightarrow> Inl TypeError))))
      else Inl AttributeError)"

text \<open>
  Attribute access on a value: only a mapping has fields; an integer, a float, a
  text or an array has none of the names used here.
\<close>

definition getattr :: "pyvalue \<Rightarrow> string \<Rightarrow> exc_class + pyvalue" where
  "getattr v name =
     (case v of PyMapping m \<Rightarrow> StructMapping_getattr m name | _ \<Rightarrow> Inl AttributeError)"

text \<open>Integer subtraction and addition, as used for the pixel counts.\<close>

definition py_sub :: "pyvalue \<Rightarrow> pyvalue \<Rightarrow> exc_class + pyvalue" where
  "py_sub a b =
     (case (a, b) of (PyInt x, PyInt y) \<Rightarrow> Inr (PyInt (x - y)) | _ \<Rightarrow> Inl TypeError)"

definition py_add :: "pyvalue \<Rightarrow> pyvalue \<Rightarrow> exc_class + pyvalue" where
  "py_add a b =
     (case (a, b) of (PyInt x, PyInt y) \<Rightarrow> Inr (PyInt (x + y)) | _ \<Rightarrow> Inl TypeError)"

section \<open>Files and streams\<close>

text \<open>
  What a path names: nothing, a directory, or a file with its content.  An open binary
  file is its content and the current position.
\<close>

datatype fs_entry = Missing | Directory | RegularFile "byte list"

type_synonym filesystem = "string \<Rightarrow> fs_entry"

record stream =
  content :: "byte list"
  pos :: nat

definition path_open :: "filesystem \<Rightarrow> string \<Rightarrow> exc_class + stream" where
  "path_open fs path =
     (case fs path of
        Missing \<Rightarrow> Inl FileNotFoundError
      | Directory \<Rightarrow> Inl IsADirectoryError
      | RegularFile bs \<Rightarrow> Inr \<lparr>content = bs, pos = 0\<rparr>)"

text \<open>
  \<^verbatim>\<open>fo.read(n)\<close> returns the bytes that are left, at most \<open>n\<close>.  \<^verbatim>\<open>fo.readinto(struct)\<close>
  copies them over the start of a structure of \<open>n\<close> bytes that was created zeroed: a
  short file leaves the rest zero and raises nothing.
\<close>

definition read :: "nat \<Rightarrow> stream \<Rightarrow> byte list \<times> stream" where
  "read n s =
     (let got = take n (drop (pos s) (content s))
      in (got, s\<lparr>pos := pos s + length got\<rparr>))"

definition readinto :: "nat \<Rightarrow> stream \<Rightarrow> byte list \<times> stream" where
  "readinto n s =
     (let got = take n (drop (pos s) (content s))
      in (got @ replicate (n - length got) 0, s\<lparr>pos := pos s + length got\<rparr>))"

text \<open>\<^verbatim>\<open>fo.seek(k)\<close> and \<^verbatim>\<open>fo.seek(d, os.SEEK_CUR)\<close>; a position before the start is an \<open>OSError\<close>.\<close>

definition seek :: "nat \<Rightarrow> stream \<Rightarrow> stream" where
  "seek k s = s\<lparr>pos := k\<rparr>"

definition seek_cur :: "int \<Rightarrow> stream \<Rightarrow> exc_class + stream" where
  "seek_cur d s =
     (if int (pos s) + d < 0 then Inl OSError else Inr (s\<lparr>pos := nat (int (pos s) + d)\<rparr>))"

text \<open>
  \<^verbatim>\<open>numpy.fromfile(fo, dtype, count)\<close> for a dtype of \<open>itemsize\<close> bytes: the items as
  their bytes.  A negative count reads every whole item that is left.  When fewer than
  \<open>count\<close> items are left, the array is shorter, nothing is raised and the file is at
  its end.
\<close>

definition np_fromfile :: "nat \<Rightarrow> int \<Rightarrow> stream \<Rightarrow> byte list list \<times> stream" where
  "np_fromfile itemsize count s =
     (let rest = drop (pos s) (content s);
          avail = length rest div itemsize
      in if count < 0 then (chunks itemsize avail rest, s\<lparr>pos := pos s + avail * itemsize\<rparr>)
         else if nat count \<le> avail
         then (chunks itemsize (nat count) rest, s\<lparr>pos := pos s + nat count * itemsize\<rparr>)
         else (chunks itemsize avail rest, s\<lparr>pos := pos s + length rest\<rparr>))"

definition fromfile_float32 :: "int \<Rightarrow> stream \<Rightarrow> pyfloat list \<times> stream" where
  "fromfile_float32 count s =
     (case np_fromfile 4 count s of (items, s') \<Rightarrow> (map (\<lambda>b. Float32 (le_word b)) items, s'))"

definition fromfile_double :: "int \<Rightarrow> stream \<Rightarrow> pyfloat list \<times> stream" where
  "fromfile_double count s =
     (case np_fromfile sizeof_c_double count s of
        (items, s') \<Rightarrow> (map (\<lambda>b. Float64 (le_word b)) items, s'))"

subsection \<open>numpy arrays\<close>

text \<open>
  A one-dimensional array is a list.  A two-dimensional array is the list of its rows;
  where the number of columns matters for an array without rows, it is passed along.
  \<open>reshape4T\<close> is \<^verbatim>\<open>.reshape(4, -1).T\<close>: the input is four planes of \<open>n\<close> values, row
  \<open>i\<close> of the result holds the \<open>i\<close>-th value of each plane.
\<close>

definition reshape4T :: "'a list \<Rightarrow> exc_class + 'a list list" where
  "reshape4T xs =
     (if length xs mod 4 = 0
      then (let n = length xs div 4
            in Inr (map (\<lambda>i. [xs ! i, xs ! (n + i), xs ! (2 * n + i), xs ! (3 * n + i)]) [0..<n]))
      else Inl ValueError)"

definition column :: "nat \<Rightarrow> 'a list list \<Rightarrow> 'a list" where
  "column j rows = map (\<lambda>r. r ! j) rows"

text \<open>\<^verbatim>\<open>a[start:stop]\<close> for indices that are not negative.\<close>

definition py_slice :: "nat \<Rightarrow> nat \<Rightarrow> 'a list \<Rightarrow> 'a list" where
  "py_slice start stop xs = drop start (take stop xs)"

text \<open>
  Subtraction with numpy's broadcasting.  Two one-dimensional arrays need equal
  lengths unless one has length 1.  A two-dimensional array of \<open>ncols\<close> columns minus a
  one-dimensional array \<open>d\<close> lines \<open>d\<close> up with the columns.
\<close>

definition np_sub_1d :: "pyfloat list \<Rightarrow> pyfloat list \<Rightarrow> exc_class + pyfloat list" where
  "np_sub_1d a b =
     (if length a = length b then Inr (map2 FSub a b)
      else if length b = 1 then Inr (map (\<lambda>x. FSub x (hd b)) a)
      else if length a = 1 then Inr (map (\<lambda>y. FSub (hd a) y) b)
      else Inl ValueError)"

definition np_sub_2d_1d ::
  "nat \<Rightarrow> pyfloat list list \<Rightarrow> pyfloat list \<Rightarrow> exc_class + pyfloat list list" where
  "np_sub_2d_1d ncols rows d =
     (if length d = ncols then Inr (map (\<lambda>r. map2 FSub r d) rows)
      else if length d = 1 then Inr (map (\<lambda>r. map (\<lambda>x. FSub x (hd d)) r) rows)
      else if ncols = 1 then Inr (map (\<lambda>r. map (\<lambda>y. FSub (hd r) y) d) rows)
      else Inl ValueError)"

text \<open>
  \<^verbatim>\<open>data[:, i] = col\<close>: the column must have one value for each row, or a single value
  for all of them.
\<close>

definition set_column ::
  "nat \<Rightarrow> 'a list \<Rightarrow> 'a list list \<Rightarrow> exc_class + 'a list list" where
  "set_column i col rows =
     (if length col = length rows then Inr (map2 (\<lambda>r x. r[i := x]) rows col)
      else if length col = 1 then Inr (map (\<lambda>r. r[i := hd col]) rows)
      else Inl ValueError)"

text \<open>An integer index into an axis of \<open>n\<close> entries; negative indices count from the end.\<close>

definition py_index :: "nat \<Rightarrow> int \<Rightarrow> exc_class + nat" where
  "py_index n i =
     (let j = (if i < 0 then int n + i else i)
      in if 0 \<le> j \<and> j < int n then Inr (nat j) else Inl IndexError)"

section \<open>\<^verbatim>\<open>AVSChannel\<close>\<close>

record AVSChannel =
  AVSChannel_mapping :: StructMapping
  AVSChannel_data :: "pyfloat list list"

definition AVSChannel_init :: "AVSInfoBlock \<Rightarrow> pyfloat list list \<Rightarrow> AVSChannel" where
  "AVSChannel_init header data =
     \<lparr>AVSChannel_mapping = StructMapping_init (AVSInfoBlock_struct header),
      AVSChannel_data = data\<rparr>"

text \<open>\<^verbatim>\<open>AVSChannel.__getattr__\<close> hands the name to the mapping.\<close>

definition AVSChannel_getattr :: "AVSChannel \<Rightarrow> string \<Rightarrow> exc_class + pyvalue" where
  "AVSChannel_getattr self name = StructMapping_getattr (AVSChannel_mapping self) name"

text \<open>
  \<^verbatim>\<open>AVSChannel.__len__\<close>:
  \<^verbatim>\<open>self.Measurement.StopPixel - self.Measurement.StartPixel + 1\<close>, evaluated from left
  to right.
\<close>

definition AVSChannel_len :: "AVSChannel \<Rightarrow> exc_class + pyvalue" where
  "AVSChannel_len self =
     bind_exc (AVSChannel_getattr self ''Measurement'') (\<lambda>m1.
     bind_exc (getattr m1 ''StopPixel'') (\<lambda>stop.
     bind_exc (AVSChannel_getattr self ''Measurement'') (\<lambda>m2.
     bind_exc (getattr m2 ''StartPixel'') (\<lambda>start.
     bind_exc (py_sub stop start) (\<lambda>d.
     py_add d (PyInt 1))))))"

text \<open>
  The properties.  A getter that raises \<open>AttributeError\<close> makes Python look the
  property's own name up through \<^verbatim>\<open>__getattr__\<close>; no property name is a field of the
  header, so that lookup raises \<open>AttributeError\<close> again and the outcome is the one of the
  getter.
\<close>

definition AVSChannel_serial :: "AVSChannel \<Rightarrow> exc_class + pyvalue" where
  "AVSChannel_serial self =
     bind_exc (AVSChannel_getattr self ''ID'') (\<lambda>i. getattr i ''SerialNumber'')"

definition timestamp_value :: "pyvalue \<Rightarrow> exc_class + datetime" where
  "timestamp_value v =
     (case v of PyInt t \<Rightarrow> extract_datetime t | PyEnum e t \<Rightarrow> extract_datetime t
      | _ \<Rightarrow> Inl TypeError)"

definition AVSChannel_date :: "AVSChannel \<Rightarrow> exc_class + datetime" where
  "AVSChannel_date self =
     bind_exc (AVSChannel_getattr self ''Timestamp'') timestamp_value"

definition AVSChannel_pixels :: "AVSChannel \<Rightarrow> exc_class + pyvalue" where
  "AVSChannel_pixels self = AVSChannel_len self"

definition AVSChannel_exposure :: "AVSChannel \<Rightarrow> exc_class + pyvalue" where
  "AVSChannel_exposure self =
     bind_exc (AVSChannel_getattr self ''Measurement'') (\<lambda>m. getattr m ''IntegrationTime'')"

definition AVSChannel_wavelength :: "AVSChannel \<Rightarrow> pyfloat list" where
  "AVSChannel_wavelength self = column 0 (AVSChannel_data self)"

definition AVSChannel_scope :: "AVSChannel \<Rightarrow> pyfloat list" where
  "AVSChannel_scope self = column 1 (AVSChannel_data self)"

definition AVSChannel_dark :: "AVSChannel \<Rightarrow> pyfloat list" where
  "AVSChannel_dark self = column 2 (AVSChannel_data self)"

definition AVSChannel_ref :: "AVSChannel \<Rightarrow> pyfloat list" where
  "AVSChannel_ref self = column 3 (AVSChannel_data self)"

definition AVSChannel_signal :: "AVSChannel \<Rightarrow> exc_class + pyfloat list" where
  "AVSChannel_signal self = np_sub_1d (AVSChannel_scope self) (AVSChannel_dark self)"

text \<open>
  \<^verbatim>\<open>AVSChannel.from_buffer(buffer)\<close> with the default \<open>offset = 0\<close>: the header, then
  \<open>4 * num_pixels\<close> 32-bit floats, then the seek to the next block.  It returns the
  channel and the stream where it is left.
\<close>

definition AVSChannel_PADDING :: nat where
  "AVSChannel_PADDING = 10"

definition from_buffer :: "stream \<Rightarrow> exc_class + (AVSChannel \<times> stream)" where
  "from_buffer buffer =
     (let startBlock = pos buffer
      in case readinto sizeof_AVSInfoBlock buffer of
           (raw, s1) \<Rightarrow>
             (let header = AVSInfoBlock_from_bytes raw;
                  num_pixels = uint (StopPixel (Measurement header))
                                 - uint (StartPixel (Measurement header)) + 1
              in case fromfile_float32 (4 * num_pixels) s1 of
                   (flat, s2) \<Rightarrow>
                     (case reshape4T flat of
                        Inl e \<Rightarrow> Inl e
                      | Inr data \<Rightarrow>
                          Inr (AVSChannel_init header data,
                               seek (startBlock + unat (blockLength header) + AVSChannel_PADDING)
                                 s2))))"

section \<open>\<^verbatim>\<open>AVSFile\<close>\<close>

record AVSFile =
  AVSFile_path :: string
  AVSFile_preamble :: AVSPreamble
  AVSFile_channels :: "AVSChannel list"

text \<open>The list comprehension \<^verbatim>\<open>[AVSChannel.from_buffer(fo) for _ in range(n)]\<close>.\<close>

fun read_channels :: "nat \<Rightarrow> stream \<Rightarrow> exc_class + AVSChannel list" where
  "read_channels 0 fo = Inr []"
| "read_channels (Suc n) fo =
     (case from_buffer fo of
        Inl e \<Rightarrow> Inl e
      | Inr (c, fo') \<Rightarrow>
          (case read_channels n fo' of Inl e \<Rightarrow> Inl e | Inr cs \<Rightarrow> Inr (c # cs)))"

definition AVSFile_init :: "filesystem \<Rightarrow> string \<Rightarrow> exc_class + AVSFile" where
  "AVSFile_init fs path =
     (case path_open fs path of
        Inl e \<Rightarrow> Inl e
      | Inr fo \<Rightarrow>
          (case readinto sizeof_AVSPreamble fo of
             (raw, fo1) \<Rightarrow>
               (let preamble = AVSPreamble_from_bytes raw
                in if c_char_value (FileType preamble) = map of_char ''AVS''
                   then (case read_channels (unat (channels preamble)) fo1 of
                           Inl e \<Rightarrow> Inl e
                         | Inr cs \<Rightarrow>
                             Inr \<lparr>AVSFile_path = path, AVSFile_preamble = preamble,
                                  AVSFile_channels = cs\<rparr>)
                   else Inl AvaReadException)))"

text \<open>
  \<^verbatim>\<open>AVSFile.__getitem__\<close>: an integer key is a position, any other key is compared with
  the serial numbers, which are text.  \<open>getitem_position\<close> is the position of the list
  \<^verbatim>\<open>self.channels\<close> that the source reads, so that two lookups with the same position
  return the same object.
\<close>

datatype key = IntKey int | StrKey unicode

fun serials :: "AVSChannel list \<Rightarrow> exc_class + pyvalue list" where
  "serials [] = Inr []"
| "serials (c # cs) =
     bind_exc (AVSChannel_serial c) (\<lambda>k. bind_exc (serials cs) (\<lambda>ks. Inr (k # ks)))"

fun list_index :: "'a list \<Rightarrow> 'a \<Rightarrow> nat" where
  "list_index [] x = 0"
| "list_index (y # ys) x = (if y = x then 0 else Suc (list_index ys x))"

definition getitem_position :: "AVSFile \<Rightarrow> key \<Rightarrow> exc_class + nat" where
  "getitem_position self k =
     (case k of
        IntKey i \<Rightarrow>
          if int (length (AVSFile_channels self)) \<le> i then Inl IndexError
          else py_index (length (AVSFile_channels self)) i
      | StrKey t \<Rightarrow>
          bind_exc (serials (AVSFile_channels self)) (\<lambda>keys.
            if PyStr t \<in> set keys then Inr (list_index keys (PyStr t))
            else Inl KeyError))"

definition AVSFile_getitem :: "AVSFile \<Rightarrow> key \<Rightarrow> exc_class + AVSChannel" where
  "AVSFile_getitem self k =
     bind_exc (getitem_position self k) (\<lambda>j. Inr (AVSFile_channels self ! j))"

definition AVSFile_len :: "AVSFile \<Rightarrow> int" where
  "AVSFile_len self = uint (channels (AVSFile_preamble self))"

definition AVSFile_name :: "AVSFile \<Rightarrow> string" where
  "AVSFile_name self = AVSFile_path self"

text \<open>\<^verbatim>\<open>AVSFile.date\<close> is \<^verbatim>\<open>self.channels[0].date\<close>; an empty list raises \<open>IndexError\<close>.\<close>

definition AVSFile_date :: "AVSFile \<Rightarrow> exc_class + datetime" where
  "AVSFile_date self =
     (case AVSFile_channels self of [] \<Rightarrow> Inl IndexError | c # cs \<Rightarrow> AVSChannel_date c)"

section \<open>\<^verbatim>\<open>STRFile\<close>\<close>

text \<open>
  The attributes \<^verbatim>\<open>_wavelength\<close>, \<^verbatim>\<open>_dark\<close> and \<^verbatim>\<open>_ref\<close> (the arrays over the whole
  sensor) are \<open>wavelength_full\<close>, \<open>dark_full\<close> and \<open>ref_full\<close>.  \<open>STRFile_data\<close> has one
  row for each pixel and one column for each frame.
\<close>

record STRFile =
  STRFile_preamble :: STRPreamble
  STRFile_mapping :: StructMapping
  STRFile_path :: string
  wavelength_full :: "pyfloat list"
  dark_full :: "pyfloat list"
  ref_full :: "pyfloat list"
  delay :: "pyfloat list"
  STRFile_data :: "pyfloat list list"

text \<open>
  The loop over the frames.  \<^verbatim>\<open>struct.unpack("l", fo.read(sizeof(c_long)))\<close> uses the
  native size of a C \<^verbatim>\<open>long\<close>, \<open>sizeof_c_long\<close>: 4 bytes on Windows and on 32-bit
  hosts, 8 bytes on 64-bit Linux and macOS.  \<^verbatim>\<open>struct.unpack\<close> raises \<^verbatim>\<open>struct.error\<close>
  when the buffer is shorter.  \<open>read_frames\<close> runs the iterations \<open>i, i + 1, \<dots>\<close> for
  \<open>n\<close> frames still to read and returns the two arrays and the stream.
\<close>

fun read_frames ::
  "nat \<Rightarrow> nat \<Rightarrow> nat \<Rightarrow> nat \<Rightarrow> stream \<Rightarrow> pyfloat list \<Rightarrow> pyfloat list list
     \<Rightarrow> exc_class + (pyfloat list \<times> pyfloat list list \<times> stream)" where
  "read_frames sizeof_c_long pixels 0 i fo dl dat = Inr (dl, dat, fo)"
| "read_frames sizeof_c_long pixels (Suc n) i fo dl dat =
     (case read sizeof_c_long fo of
        (raw, fo1) \<Rightarrow>
          if length raw < sizeof_c_long then Inl StructError
          else
            (let dl' = dl[i := TrueDiv (le_signed raw) 100]
             in case fromfile_double (int pixels) fo1 of
                  (col, fo2) \<Rightarrow>
                    (case set_column i col dat of
                       Inl e \<Rightarrow> Inl e
                     | Inr dat' \<Rightarrow> read_frames sizeof_c_long pixels n (Suc i) fo2 dl' dat')))"

text \<open>\<^verbatim>\<open>STRFile.__init__\<close>.  The first value of the six bytes at offset 10000 is a signed
  16-bit pixel count; \<^verbatim>\<open>numpy.zeros\<close> refuses a negative one with \<open>ValueError\<close>.\<close>

definition STRFile_init :: "nat \<Rightarrow> filesystem \<Rightarrow> string \<Rightarrow> exc_class + STRFile" where
  "STRFile_init sizeof_c_long fs path =
     (case path_open fs path of
        Inl e \<Rightarrow> Inl e
      | Inr fo \<Rightarrow>
          (case readinto sizeof_STRPreamble fo of
             (rawp, fo1) \<Rightarrow>
               (let preamble = STRPreamble_from_bytes rawp
                in if c_char_value (STR_FileType preamble) = map of_char ''STR''
                   then
                     (case readinto sizeof_STRInfoBlock fo1 of
                        (rawh, fo2) \<Rightarrow>
                          (let header = STRInfoBlock_from_bytes rawh
                           in case read 6 (seek 10000 fo2) of
                                (six, fo3) \<Rightarrow>
                                  if length six < 6 then Inl StructError
                                  else
                                    (let pixels = le_signed (take 2 six)
                                     in case seek_cur (pixels * int sizeof_c_double) fo3 of
                                          Inl e \<Rightarrow> Inl e
                                        | Inr fo4 \<Rightarrow>
                                            (case fromfile_double pixels fo4 of
                                               (wl, fo5) \<Rightarrow>
                                                 (case fromfile_double pixels fo5 of
                                                    (dk, fo6) \<Rightarrow>
                                                      (case fromfile_double pixels fo6 of
                                                         (rf, fo7) \<Rightarrow>
   if pixels < 0 then Inl ValueError
   else
     (let nframes = unat (frames preamble)
      in case read_frames sizeof_c_long (nat pixels) nframes 0 fo7
                (replicate nframes (Float64 0))
                (replicate (nat pixels) (replicate nframes (Float64 0))) of
           Inl e \<Rightarrow> Inl e
         | Inr (dl, dat, fo8) \<Rightarrow>
             Inr \<lparr>STRFile_preamble = preamble,
                  STRFile_mapping = StructMapping_init (STRInfoBlock_struct header),
                  STRFile_path = path,
                  wavelength_full = wl, dark_full = dk, ref_full = rf,
                  delay = dl, STRFile_data = dat\<rparr>)))))))
                   else Inl AvaReadException)))"

definition STRFile_getattr :: "STRFile \<Rightarrow> string \<Rightarrow> exc_class + pyvalue" where
  "STRFile_getattr self name = StructMapping_getattr (STRFile_mapping self) name"

text \<open>The two pixel bounds as the slices use them; a slice needs integers.\<close>

definition slice_bound :: "pyvalue \<Rightarrow> exc_class + nat" where
  "slice_bound v =
     (case v of PyInt i \<Rightarrow> if 0 \<le> i then Inr (nat i) else Inl TypeError | _ \<Rightarrow> Inl TypeError)"

definition STRFile_StartPixel :: "STRFile \<Rightarrow> exc_class + pyvalue" where
  "STRFile_StartPixel self =
     bind_exc (STRFile_getattr self ''Measurement'') (\<lambda>m. getattr m ''StartPixel'')"

definition STRFile_StopPixel :: "STRFile \<Rightarrow> exc_class + pyvalue" where
  "STRFile_StopPixel self =
     bind_exc (STRFile_getattr self ''Measurement'') (\<lambda>m. getattr m ''StopPixel'')"

text \<open>\<open>active\<close> is the slice \<^verbatim>\<open>[self.Measurement.StartPixel : self.Measurement.StopPixel]\<close>.\<close>

definition active :: "STRFile \<Rightarrow> 'a list \<Rightarrow> exc_class + 'a list" where
  "active self xs =
     bind_exc (STRFile_StartPixel self) (\<lambda>a.
     bind_exc (STRFile_StopPixel self) (\<lambda>b.
     bind_exc (slice_bound a) (\<lambda>start.
     bind_exc (slice_bound b) (\<lambda>stop.
     Inr (py_slice start stop xs)))))"

definition STRFile_len :: "STRFile \<Rightarrow> int" where
  "STRFile_len self = uint (frames (STRFile_preamble self))"

definition STRFile_frames :: "STRFile \<Rightarrow> int" where
  "STRFile_frames self = uint (frames (STRFile_preamble self))"

definition STRFile_serial :: "STRFile \<Rightarrow> exc_class + pyvalue" where
  "STRFile_serial self =
     bind_exc (STRFile_getattr self ''ID'') (\<lambda>i. getattr i ''SerialNumber'')"

text \<open>\<^verbatim>\<open>STRFile.pixels\<close>: \<^verbatim>\<open>self.Measurement.StopPixel - self.Measurement.StartPixel\<close>.\<close>

definition STRFile_pixels :: "STRFile \<Rightarrow> exc_class + pyvalue" where
  "STRFile_pixels self =
     bind_exc (STRFile_StopPixel self) (\<lambda>stop.
     bind_exc (STRFile_StartPixel self) (\<lambda>start.
     py_sub stop start))"

definition STRFile_exposure :: "STRFile \<Rightarrow> exc_class + pyvalue" where
  "STRFile_exposure self =
     bind_exc (STRFile_getattr self ''Measurement'') (\<lambda>m. getattr m ''IntegrationTime'')"

definition STRFile_wavelength :: "STRFile \<Rightarrow> exc_class + pyfloat list" where
  "STRFile_wavelength self = active self (wavelength_full self)"

definition STRFile_scope :: "STRFile \<Rightarrow> exc_class + pyfloat list list" where
  "STRFile_scope self = active self (STRFile_data self)"

definition STRFile_dark :: "STRFile \<Rightarrow> exc_class + pyfloat list" where
  "STRFile_dark self = active self (dark_full self)"

definition STRFile_ref :: "STRFile \<Rightarrow> exc_class + pyfloat list" where
  "STRFile_ref self = active self (ref_full self)"

text \<open>
  \<^verbatim>\<open>STRFile.signal\<close>: the two-dimensional slice of the data minus the one-dimensional
  \<^verbatim>\<open>self.dark\<close>.  The data has one column for each frame.
\<close>

definition STRFile_signal :: "STRFile \<Rightarrow> exc_class + pyfloat list list" where
  "STRFile_signal self =
     bind_exc (active self (STRFile_data self)) (\<lambda>rows.
     bind_exc (STRFile_dark self) (\<lambda>d.
     np_sub_2d_1d (unat (frames (STRFile_preamble self))) rows d))"

text \<open>
  \<^verbatim>\<open>STRFile.__getitem__(index)\<close>: column \<open>index\<close> of the slice of the data, minus
  \<^verbatim>\<open>self.dark\<close>.
\<close>

definition STRFile_getitem :: "STRFile \<Rightarrow> int \<Rightarrow> exc_class + pyfloat list" where
  "STRFile_getitem self index =
     bind_exc (active self (STRFile_data self)) (\<lambda>rows.
     bind_exc (py_index (unat (frames (STRFile_preamble self))) index) (\<lambda>j.
     bind_exc (STRFile_dark self) (\<lambda>d.
     np_sub_1d (column j rows) d)))"

section \<open>\<^verbatim>\<open>read_file\<close>\<close>

datatype avafile = AVS_file AVSFile | STR_file STRFile

definition read_file :: "nat \<Rightarrow> filesystem \<Rightarrow> string \<Rightarrow> exc_class + avafile" where
  "read_file sizeof_c_long fs file_path =
     (case fs file_path of
        Missing \<Rightarrow> Inl FileNotFoundError
      | Directory \<Rightarrow> Inl FileNotFoundError
      | RegularFile bs \<Rightarrow>
          (let prelude = take 5 bs
           in case decode (take 3 prelude) of
                Inl e \<Rightarrow> Inl e
              | Inr file_format \<Rightarrow>
                  (case py_int (drop 3 prelude) of
                     Inl e \<Rightarrow> Inl e
                   | Inr version \<Rightarrow>
                       if upper file_format = ascii ''AVS'' then
                         (if truediv_less version 10 8 then Inl AvaReadException
                          else (case AVSFile_init fs file_path of
                                  Inl e \<Rightarrow> Inl e | Inr f \<Rightarrow> Inr (AVS_file f)))
                       else if upper file_format = ascii ''STR'' then
                         (if truediv_less version 10 8 then Inl AvaReadException
                          else (case STRFile_init sizeof_c_long fs file_path of
                                  Inl e \<Rightarrow> Inl e | Inr f \<Rightarrow> Inr (STR_file f)))
                       else Inl AvaReadException)))"

section \<open>Example files\<close>

text \<open>
  A regular file with two channels of two pixels each (\<open>StartPixel = 0\<close>,
  \<open>StopPixel = 1\<close>).  A block is the header of 322 bytes with \<open>blockLength = 354\<close>, the
  four planes wavelength (400, 401), scope (10, 20), dark (1, 1) and reference (0, 0) as
  32-bit floats, and ten bytes of padding.
\<close>

definition example_header :: "byte \<Rightarrow> string \<Rightarrow> byte list" where
  "example_header index serial =
     [98, 1, 0, 0, index, 0, 0, 0]
     @ map of_char serial @ replicate (10 - length serial) 0 @ replicate 65 0
     @ [0, 0, 1, 0] @ replicate 37 0
     @ replicate 4 0
     @ [30, 235, 130, 126] @ replicate 20 0
     @ replicate 170 0"

definition example_payload :: "byte list" where
  "example_payload =
     [0, 0, 200, 67, 0, 128, 200, 67, 0, 0, 32, 65, 0, 0, 160, 65,
      0, 0, 128, 63, 0, 0, 128, 63, 0, 0, 0, 0, 0, 0, 0, 0]"

definition example_avs :: "byte list" where
  "example_avs =
     map of_char ''AVS80'' @ [2]
     @ example_header 0 ''1905123U1'' @ example_payload @ replicate 10 0
     @ example_header 1 ''1905124U1'' @ example_payload @ replicate 10 0"

definition example_fs :: filesystem where
  "example_fs p = (if p = ''two.raw8'' then RegularFile example_avs else Missing)"

definition example_data :: "pyfloat list list" where
  "example_data =
     [[Float32 0x43C80000, Float32 0x41200000, Float32 0x3F800000, Float32 0],
      [Float32 0x43C88000, Float32 0x41A00000, Float32 0x3F800000, Float32 0]]"

definition example_file :: AVSFile where
  "example_file =
     \<lparr>AVSFile_path = ''two.raw8'',
      AVSFile_preamble = AVSPreamble_from_bytes (map of_char ''AVS80'' @ [2]),
      AVSFile_channels =
        [AVSChannel_init (AVSInfoBlock_from_bytes (example_header 0 ''1905123U1'')) example_data,
         AVSChannel_init (AVSInfoBlock_from_bytes (example_header 1 ''1905124U1'')) example_data]\<rparr>"

section \<open>Channels of a parsed file\<close>

text \<open>
  The channels that \<^verbatim>\<open>AVSChannel.__init__\<close> builds from a header and an array.  This
  predicate is used to state properties only; \<^verbatim>\<open>from_buffer\<close> builds every channel of a
  parsed file this way.
\<close>

definition built :: "AVSChannel \<Rightarrow> bool" where
  "built c = (\<exists>header data. c = AVSChannel_init header data)"

section \<open>Properties of the timestamp decoder\<close>

lemma drop_bit_small: "0 \<le> (x::int) \<Longrightarrow> x < 2 ^ n \<Longrightarrow> drop_bit n x = 0"
  by (simp add: drop_bit_eq_div)

lemma take_bit_small: "0 \<le> (x::int) \<Longrightarrow> x < 2 ^ n \<Longrightarrow> take_bit n x = x"
  by (simp add: take_bit_int_eq_self)

text \<open>
  The shifts and remainders of the decoder return the five packed fields, whenever
  month, day, hour and minute fit their bit fields.
\<close>

lemma unpack_fields:
  assumes "0 \<le> mo" "mo < 16" "0 \<le> d" "d < 32" "0 \<le> h" "h < 32" "0 \<le> mi" "mi < 64"
  shows "drop_bit 20 (pack_timestamp y mo d h mi) = y"
    and "drop_bit 16 (pack_timestamp y mo d h mi) mod 16 = mo"
    and "drop_bit 11 (pack_timestamp y mo d h mi) mod 32 = d"
    and "drop_bit 6 (pack_timestamp y mo d h mi) mod 32 = h"
    and "pack_timestamp y mo d h mi mod 64 = mi"
proof -
  have m4: "x mod 16 = take_bit 4 x" for x :: int by (simp add: take_bit_eq_mod)
  have m5: "x mod 32 = take_bit 5 x" for x :: int by (simp add: take_bit_eq_mod)
  have m6: "x mod 64 = take_bit 6 x" for x :: int by (simp add: take_bit_eq_mod)
  have a: "drop_bit 4 mo = 0" "drop_bit 5 d = 0" "drop_bit 5 h = 0" "drop_bit 6 mi = 0"
    using assms by (simp_all add: drop_bit_small)
  have b: "take_bit 4 mo = mo" "take_bit 5 d = d" "take_bit 5 h = h" "take_bit 6 mi = mi"
    using assms by (simp_all add: take_bit_small)
  have c: "drop_bit 9 d = 0" "drop_bit 14 h = 0" "drop_bit 20 mi = 0" "drop_bit 10 h = 0"
    "drop_bit 16 mi = 0" "drop_bit 11 mi = 0"
    using assms by (simp_all add: drop_bit_small)
  show "drop_bit 20 (pack_timestamp y mo d h mi) = y"
    unfolding pack_timestamp_def by (simp add: drop_bit_push_bit a c)
  show "drop_bit 16 (pack_timestamp y mo d h mi) mod 16 = mo"
    unfolding pack_timestamp_def m4 by (simp add: drop_bit_push_bit take_bit_push_bit a b c)
  show "drop_bit 11 (pack_timestamp y mo d h mi) mod 32 = d"
    unfolding pack_timestamp_def m5 by (simp add: drop_bit_push_bit take_bit_push_bit a b c)
  show "drop_bit 6 (pack_timestamp y mo d h mi) mod 32 = h"
    unfolding pack_timestamp_def m5 by (simp add: drop_bit_push_bit take_bit_push_bit a b c)
  show "pack_timestamp y mo d h mi mod 64 = mi"
    unfolding pack_timestamp_def m6 by (simp add: take_bit_push_bit a b c)
qed

lemma days_in_month_le: "days_in_month y m \<le> 31"
  by (simp add: days_in_month_def)

text \<open>
  Claim C4 as stated fails: every field of the two tuples below is in the range that the
  claim allows (year below 4096, month 1-12, day 1-31, hour 0-23, minute 0-59), and
  the decoder raises \<open>ValueError\<close> on both packed values, because 31 February is
  not a date and because \<^verbatim>\<open>datetime\<close> has no year 0.
\<close>

theorem extract_datetime_counterexample:
  "extract_datetime (pack_timestamp 2023 2 31 12 30) = Inl ValueError
   \<and> extract_datetime (pack_timestamp 0 1 1 0 0) = Inl ValueError"
  by (simp add: extract_datetime_def pack_timestamp_def mk_datetime_def days_in_month_def
      is_leap_def)

text \<open>
  Claim C4, amended: for every tuple with a year from 1 to 4095, a month from 1 to 12, a
  day from 1 to the number of days of that month in that year, an hour from 0 to 23 and a
  minute from 0 to 59, decoding the packed tuple succeeds and returns the tuple.
\<close>

theorem extract_datetime_roundtrip:
  assumes "1 \<le> y" and "y < 4096" and "1 \<le> mo" and "mo \<le> 12"
    and "1 \<le> d" and "d \<le> days_in_month y mo"
    and "0 \<le> h" and "h \<le> 23" and "0 \<le> mi" and "mi \<le> 59"
  shows "extract_datetime (pack_timestamp y mo d h mi)
           = Inr \<lparr>year = y, month = mo, day = d, hour = h, minute = mi\<rparr>"
proof -
  have d32: "d < 32" using assms(6) days_in_month_le [of y mo] by linarith
  have f: "drop_bit 20 (pack_timestamp y mo d h mi) = y"
    "drop_bit 16 (pack_timestamp y mo d h mi) mod 16 = mo"
    "drop_bit 11 (pack_timestamp y mo d h mi) mod 32 = d"
    "drop_bit 6 (pack_timestamp y mo d h mi) mod 32 = h"
    "pack_timestamp y mo d h mi mod 64 = mi"
    using assms d32 by (simp_all add: unpack_fields)
  show ?thesis
    unfolding extract_datetime_def Let_def f
    using assms by (simp add: mk_datetime_def)
qed

theorem extract_datetime_roundtrip_witness:
  "extract_datetime (pack_timestamp 2024 2 29 23 59)
     = Inr \<lparr>year = 2024, month = 2, day = 29, hour = 23, minute = 59\<rparr>"
  using extract_datetime_roundtrip [of 2024 2 29 23 59]
  by (simp add: days_in_month_def is_leap_def)

section \<open>Properties of \<^verbatim>\<open>read_file\<close>\<close>

lemmas read_file_eval =
  read_file_def decode_def utf8_step_def py_int_def unsigned_literal_def is_space_def
  is_digit_def upper_def ascii_def truediv_less_def

text \<open>
  Claim C10: \<open>AvaReadException\<close> is a subclass of \<open>BaseException\<close> and not of
  \<open>Exception\<close>, so whenever \<^verbatim>\<open>read_file\<close> raises it (wrong magic bytes, version below 8),
  a handler \<^verbatim>\<open>except Exception\<close> around the call does not take it and the exception
  propagates.
\<close>

theorem AvaReadException_passes_except_Exception:
  "issubclass AvaReadException BaseException
   \<and> \<not> issubclass AvaReadException Exception
   \<and> (read_file sizeof_c_long fs file_path = Inl AvaReadException \<longrightarrow>
        try_except_Exception (read_file sizeof_c_long fs file_path)
          = Propagated AvaReadException)"
  by (simp add: issubclass_def try_except_Exception_def numeral_nat)

theorem AvaReadException_passes_except_Exception_witness:
  "read_file 4 (\<lambda>p. RegularFile (map of_char ''XYZ80'')) ''spectrum.raw8''
     = Inl AvaReadException
   \<and> try_except_Exception
         (read_file 4 (\<lambda>p. RegularFile (map of_char ''XYZ80'')) ''spectrum.raw8'')
       = (Propagated AvaReadException :: avafile outcome)"
  using AvaReadException_passes_except_Exception
    [of 4 "\<lambda>p. RegularFile (map of_char ''XYZ80'')" "''spectrum.raw8''"]
  by (simp add: read_file_eval)

section \<open>Properties of the field mapper\<close>

lemma map_of_declared: "name \<in> set (map fst xs) \<Longrightarrow> \<exists>v. map_of xs name = Some v"
  by (induction xs) auto

lemma enum_call_not_AttributeError: "enum_call e v \<noteq> Inl AttributeError"
  by (simp add: enum_call_def split: cdata.splits)

lemma getattr_declared:
  assumes "map_of (c_fields (struct self)) field = Some v"
    and "field \<in> set (map fst (c_fields (struct self)))"
  shows "StructMapping_getattr self field \<noteq> Inl AttributeError"
proof (cases "map_of (c_map (struct self)) field")
  case None
  then show ?thesis using assms
    by (cases v) (simp_all add: StructMapping_getattr_def)
next
  case (Some e)
  then show ?thesis using assms
    by (cases v) (simp_all add: StructMapping_getattr_def enum_call_not_AttributeError)
qed

text \<open>
  Claim C9: \<^verbatim>\<open>StructMapping.__getattr__\<close> raises \<open>AttributeError\<close> for every name that is
  not declared in \<^verbatim>\<open>_fields_\<close> of the structure.  The lookup is a function of the
  structure and the name and changes neither, so a failed lookup leaves every
  declared field as accessible as before: no lookup of a declared field raises
  \<open>AttributeError\<close>.
\<close>

theorem StructMapping_getattr_unknown_field:
  "(name \<notin> set (map fst (c_fields (struct self))) \<longrightarrow>
      StructMapping_getattr self name = Inl AttributeError)
   \<and> (field \<in> set (map fst (c_fields (struct self))) \<longrightarrow>
      StructMapping_getattr self field \<noteq> Inl AttributeError)"
proof (intro conjI impI)
  assume "name \<notin> set (map fst (c_fields (struct self)))"
  then show "StructMapping_getattr self name = Inl AttributeError"
    by (simp add: StructMapping_getattr_def)
next
  assume d: "field \<in> set (map fst (c_fields (struct self)))"
  from map_of_declared [OF d] obtain v where v: "map_of (c_fields (struct self)) field = Some v" ..
  from v d show "StructMapping_getattr self field \<noteq> Inl AttributeError"
    by (rule getattr_declared)
qed

theorem StructMapping_getattr_unknown_field_witness:
  "''Timestamp'' \<notin> set (map fst (c_fields (struct (StructMapping_init
        (AVSInfoBlock_struct (AVSInfoBlock_from_bytes (replicate 322 0)))))))
   \<and> StructMapping_getattr (StructMapping_init
        (AVSInfoBlock_struct (AVSInfoBlock_from_bytes (replicate 322 0)))) ''Timestamp''
       = Inl AttributeError
   \<and> ''timestamp'' \<in> set (map fst (c_fields (struct (StructMapping_init
        (AVSInfoBlock_struct (AVSInfoBlock_from_bytes (replicate 322 0)))))))
   \<and> StructMapping_getattr (StructMapping_init
        (AVSInfoBlock_struct (AVSInfoBlock_from_bytes (replicate 322 0)))) ''timestamp''
       \<noteq> Inl AttributeError"
  using StructMapping_getattr_unknown_field
    [of "''Timestamp''"
      "StructMapping_init (AVSInfoBlock_struct (AVSInfoBlock_from_bytes (replicate 322 0)))"
      "''timestamp''"]
  by (simp add: StructMapping_init_def AVSInfoBlock_struct_def)


lemmas struct_defs =
  AVSInfoBlock_struct_def STRInfoBlock_struct_def MeasConfigStruct_struct_def
  AvsIdentityStruct_struct_def MiscInfoStruct_struct_def

lemmas getattr_defs =
  StructMapping_getattr_def StructMapping_init_def getattr_def bind_exc_def

section \<open>Pixel counts\<close>

text \<open>
  The channel of a regular file counts \<open>StopPixel - StartPixel + 1\<close> active pixels, in
  \<^verbatim>\<open>__len__\<close> and in \<^verbatim>\<open>pixels\<close>.
\<close>

lemma AVSChannel_len_eq:
  "AVSChannel_len (AVSChannel_init header data)
     = Inr (PyInt (uint (StopPixel (Measurement header))
                    - uint (StartPixel (Measurement header)) + 1))"
  by (simp add: AVSChannel_len_def AVSChannel_getattr_def AVSChannel_init_def getattr_defs
      struct_defs py_sub_def py_add_def)

lemma AVSChannel_pixels_eq:
  "AVSChannel_pixels (AVSChannel_init header data)
     = Inr (PyInt (uint (StopPixel (Measurement header))
                    - uint (StartPixel (Measurement header)) + 1))"
  by (simp add: AVSChannel_pixels_def AVSChannel_len_eq)

lemma STRFile_bounds:
  "STRFile_StartPixel (f\<lparr>STRFile_mapping := StructMapping_init (STRInfoBlock_struct header)\<rparr>)
     = Inr (PyInt (uint (StartPixel (STR_Measurement header))))"
  "STRFile_StopPixel (f\<lparr>STRFile_mapping := StructMapping_init (STRInfoBlock_struct header)\<rparr>)
     = Inr (PyInt (uint (StopPixel (STR_Measurement header))))"
  by (simp_all add: STRFile_StartPixel_def STRFile_StopPixel_def STRFile_getattr_def
      getattr_defs struct_defs)

text \<open>
  Claim C1 fails for \<^verbatim>\<open>STRFile.pixels\<close>: for every STR file object, whatever its header
  holds, the accessor returns \<open>StopPixel - StartPixel\<close>, one less than the number of
  active pixels that the claim states and that \<^verbatim>\<open>AVSChannel\<close> returns for the same
  measurement structure.
\<close>

theorem STRFile_pixels_misses_one:
  "STRFile_pixels (f\<lparr>STRFile_mapping := StructMapping_init (STRInfoBlock_struct header)\<rparr>)
     = Inr (PyInt (uint (StopPixel (STR_Measurement header))
                    - uint (StartPixel (STR_Measurement header))))"
  by (simp add: STRFile_pixels_def STRFile_bounds bind_exc_def py_sub_def)

section \<open>Dates\<close>

text \<open>
  Claim C3 fails: \<^verbatim>\<open>AVSChannel.date\<close> reads \<^verbatim>\<open>self.Timestamp\<close>, and the header has no field
  of that name (the field is \<^verbatim>\<open>timestamp\<close>, and the packed date is
  \<^verbatim>\<open>Misc.file_datetime\<close>).  For every header and every array the accessor raises
  \<open>AttributeError\<close>, also through the retry of the name \<^verbatim>\<open>date\<close>, and so does
  \<^verbatim>\<open>AVSFile.date\<close> of every file with a first channel.
\<close>

theorem AVSChannel_date_raises:
  "AVSChannel_date (AVSChannel_init header data) = Inl AttributeError
   \<and> AVSChannel_getattr (AVSChannel_init header data) ''date'' = Inl AttributeError
   \<and> AVSFile_date \<lparr>AVSFile_path = path, AVSFile_preamble = preamble,
                    AVSFile_channels = AVSChannel_init header data # cs\<rparr>
       = Inl AttributeError"
  by (simp add: AVSFile_date_def AVSChannel_date_def AVSChannel_getattr_def
      AVSChannel_init_def getattr_defs AVSInfoBlock_struct_def)

section \<open>Reading from a stream\<close>


lemma readinto_full:
  assumes "drop (pos s) (content s) = hdr @ rest" and "length hdr = n"
  shows "readinto n s = (hdr, s\<lparr>pos := pos s + n\<rparr>)"
  using assms by (simp add: readinto_def Let_def)

lemma chunks_length: "length (chunks sz k xs) = k"
  by (induction k arbitrary: xs) simp_all

lemma np_fromfile_enough:
  assumes "drop (pos s) (content s) = payload @ rest"
    and "length payload = k * isz" and "0 < isz"
  shows "np_fromfile isz (int k) s = (chunks isz k payload, s\<lparr>pos := pos s + k * isz\<rparr>)"
proof -
  have av: "k \<le> length (payload @ rest) div isz"
    using assms(2,3) by (simp add: div_le_mono2 div_greater_zero_iff)
  have ch: "chunks isz k (payload @ rest) = chunks isz k payload"
    using assms(2)
  proof (induction k arbitrary: payload)
    case 0
    then show ?case by simp
  next
    case (Suc k)
    have "length (drop isz payload) = k * isz" using Suc.prems by simp
    from Suc.IH [OF this] show ?case using Suc.prems by simp
  qed
  show ?thesis using av ch assms(1) by (simp add: np_fromfile_def Let_def)
qed

lemma from_buffer_block:
  assumes "drop (pos s) (content s) = hdr @ payload @ rest"
    and "length hdr = 322"
    and "uint (StopPixel (Measurement (AVSInfoBlock_from_bytes hdr)))
           - uint (StartPixel (Measurement (AVSInfoBlock_from_bytes hdr))) + 1 = int n"
    and "length payload = 16 * n"
  shows "from_buffer s =
           (case reshape4T (map (\<lambda>b. Float32 (le_word b)) (chunks 4 (4 * n) payload)) of
              Inl e \<Rightarrow> Inl e
            | Inr data \<Rightarrow>
                Inr (AVSChannel_init (AVSInfoBlock_from_bytes hdr) data,
                     s\<lparr>pos := pos s + unat (blockLength (AVSInfoBlock_from_bytes hdr)) + 10\<rparr>))"
proof -
  have r: "readinto sizeof_AVSInfoBlock s = (hdr, s\<lparr>pos := pos s + 322\<rparr>)"
    using readinto_full [OF assms(1) assms(2)] by (simp add: sizeof_AVSInfoBlock_def)
  have d: "drop (pos (s\<lparr>pos := pos s + 322\<rparr>)) (content (s\<lparr>pos := pos s + 322\<rparr>))
             = payload @ rest"
    using assms(1,2) by (simp add: add.commute [of "pos s"] drop_drop [symmetric])
  have f: "np_fromfile 4 (int (4 * n)) (s\<lparr>pos := pos s + 322\<rparr>)
             = (chunks 4 (4 * n) payload, s\<lparr>pos := pos s + 322 + 4 * n * 4\<rparr>)"
    using np_fromfile_enough [OF d, of "4 * n" 4] assms(4) by simp
  have c: "4 * (uint (StopPixel (Measurement (AVSInfoBlock_from_bytes hdr)))
           - uint (StartPixel (Measurement (AVSInfoBlock_from_bytes hdr))) + 1) = int (4 * n)"
    using assms(3) by simp
  show ?thesis
    unfolding from_buffer_def Let_def r prod.case c fromfile_float32_def f
    by (simp add: seek_def AVSChannel_PADDING_def split: sum.splits)
qed

lemma chunks_numeral:
  "chunks sz (numeral k) xs = take sz xs # chunks sz (pred_numeral k) (drop sz xs)"
  by (simp add: numeral_eq_Suc)

lemma read_channels_numeral:
  "read_channels (numeral k) fo =
     (case from_buffer fo of
        Inl e \<Rightarrow> Inl e
      | Inr (c, fo') \<Rightarrow>
          (case read_channels (pred_numeral k) fo' of Inl e \<Rightarrow> Inl e | Inr cs \<Rightarrow> Inr (c # cs)))"
  by (simp add: numeral_eq_Suc)

lemma example_header_length:
  "length (example_header 0 ''1905123U1'') = 322"
  "length (example_header 1 ''1905124U1'') = 322"
  by (simp_all add: example_header_def)

lemma example_payload_length: "length example_payload = 32"
  by (simp add: example_payload_def)

lemma example_header_fields:
  "StartPixel (Measurement (AVSInfoBlock_from_bytes (example_header 0 ''1905123U1''))) = 0"
  "StopPixel (Measurement (AVSInfoBlock_from_bytes (example_header 0 ''1905123U1''))) = 1"
  "blockLength (AVSInfoBlock_from_bytes (example_header 0 ''1905123U1'')) = 354"
  "StartPixel (Measurement (AVSInfoBlock_from_bytes (example_header 1 ''1905124U1''))) = 0"
  "StopPixel (Measurement (AVSInfoBlock_from_bytes (example_header 1 ''1905124U1''))) = 1"
  "blockLength (AVSInfoBlock_from_bytes (example_header 1 ''1905124U1'')) = 354"
  by (simp_all add: AVSInfoBlock_from_bytes_def MeasConfigStruct_from_bytes_def sl_def
      example_header_def)

lemma example_serials:
  "c_char_value (SerialNumber (ID (AVSInfoBlock_from_bytes (example_header 0 ''1905123U1''))))
     = map of_char ''1905123U1''"
  "c_char_value (SerialNumber (ID (AVSInfoBlock_from_bytes (example_header 1 ''1905124U1''))))
     = map of_char ''1905124U1''"
  by (simp_all add: AVSInfoBlock_from_bytes_def AvsIdentityStruct_from_bytes_def sl_def
      example_header_def c_char_value_def is_nul_def)

lemma example_floats:
  "map (\<lambda>b. Float32 (le_word b)) (chunks 4 8 example_payload)
     = [Float32 0x43C80000, Float32 0x43C88000, Float32 0x41200000, Float32 0x41A00000,
        Float32 0x3F800000, Float32 0x3F800000, Float32 0, Float32 0]"
  by (simp add: example_payload_def chunks_numeral)

lemma reshape4T_8:
  "reshape4T [a0, a1, b0, b1, c0, c1, d0, d1] = Inr [[a0, b0, c0, d0], [a1, b1, c1, d1]]"
  by (simp add: reshape4T_def upt_conv_Cons numeral_2_eq_2)

lemma example_reshape:
  "reshape4T (map (\<lambda>b. Float32 (le_word b)) (chunks 4 8 example_payload))
     = Inr example_data"
  by (simp only: example_floats reshape4T_8 example_data_def)

lemma example_block0:
  "from_buffer \<lparr>content = example_avs, pos = 6\<rparr>
     = Inr (AVSChannel_init (AVSInfoBlock_from_bytes (example_header 0 ''1905123U1''))
              example_data,
            \<lparr>content = example_avs, pos = 370\<rparr>)"
proof -
  have d: "drop (pos \<lparr>content = example_avs, pos = 6\<rparr>)
             (content \<lparr>content = example_avs, pos = 6\<rparr>)
           = example_header 0 ''1905123U1'' @ example_payload
             @ (replicate 10 0 @ example_header 1 ''1905124U1'' @ example_payload
                @ replicate 10 0)"
    by (simp add: example_avs_def)
  show ?thesis
    using from_buffer_block [OF d example_header_length(1), of 2]
    by (simp add: example_header_fields example_payload_length example_reshape)
qed

lemma example_block1:
  "from_buffer \<lparr>content = example_avs, pos = 370\<rparr>
     = Inr (AVSChannel_init (AVSInfoBlock_from_bytes (example_header 1 ''1905124U1''))
              example_data,
            \<lparr>content = example_avs, pos = 734\<rparr>)"
proof -
  have d: "drop (pos \<lparr>content = example_avs, pos = 370\<rparr>)
             (content \<lparr>content = example_avs, pos = 370\<rparr>)
           = example_header 1 ''1905124U1'' @ example_payload @ replicate 10 0"
    by (simp add: example_avs_def example_header_length example_payload_length)
  show ?thesis
    using from_buffer_block [OF d example_header_length(2), of 2]
    by (simp add: example_header_fields example_payload_length example_reshape)
qed

lemma example_parse: "AVSFile_init example_fs ''two.raw8'' = Inr example_file"
proof -
  have p: "readinto sizeof_AVSPreamble \<lparr>content = example_avs, pos = 0\<rparr>
             = (map of_char ''AVS80'' @ [2], \<lparr>content = example_avs, pos = 6\<rparr>)"
    by (simp add: readinto_def sizeof_AVSPreamble_def example_avs_def)
  have t: "c_char_value (FileType (AVSPreamble_from_bytes [65, 86, 83, 56, 48, 2]))
             = [65, 86, 83]"
    by (simp add: AVSPreamble_from_bytes_def sl_def c_char_value_def is_nul_def)
  have n: "unat (channels (AVSPreamble_from_bytes [65, 86, 83, 56, 48, 2])) = 2"
    by (simp add: AVSPreamble_from_bytes_def sl_def)
  have r: "read_channels 2 \<lparr>content = example_avs, pos = 6\<rparr>
             = Inr (AVSFile_channels example_file)"
    by (simp add: read_channels_numeral example_block0 example_block1 example_file_def)
  show ?thesis
    unfolding AVSFile_init_def
    by (simp add: example_fs_def path_open_def p t n r Let_def)
      (simp add: example_file_def)
qed


section \<open>Properties of \<^verbatim>\<open>AVSFile\<close>\<close>


lemma from_buffer_built: "from_buffer fo = Inr (c, fo') \<Longrightarrow> built c"
  by (auto simp: from_buffer_def built_def Let_def split: prod.splits sum.splits)

lemma read_channels_length: "read_channels n fo = Inr cs \<Longrightarrow> length cs = n"
  by (induction n arbitrary: fo cs) (auto split: sum.splits prod.splits)

lemma read_channels_built: "read_channels n fo = Inr cs \<Longrightarrow> list_all built cs"
  by (induction n arbitrary: fo cs) (auto split: sum.splits prod.splits dest: from_buffer_built)

lemma AVSFile_init_channels:
  assumes "AVSFile_init fs path = Inr f"
  shows "length (AVSFile_channels f) = unat (channels (AVSFile_preamble f))"
    and "list_all built (AVSFile_channels f)"
  using assms
  by (auto simp: AVSFile_init_def Let_def split: sum.splits prod.splits if_splits
      dest: read_channels_length read_channels_built)

lemma AVSChannel_serial_built:
  "AVSChannel_serial (AVSChannel_init header data)
     = Inr (PyStr (decode_ignore (c_char_value (SerialNumber (ID header)))))"
  by (simp add: AVSChannel_serial_def AVSChannel_getattr_def AVSChannel_init_def getattr_defs
      struct_defs)

lemma serials_built:
  "list_all built cs \<Longrightarrow> \<exists>ks. serials cs = Inr ks \<and> map AVSChannel_serial cs = map Inr ks"
proof (induction cs)
  case Nil
  then show ?case by simp
next
  case (Cons c cs)
  then obtain ks where ks: "serials cs = Inr ks" "map AVSChannel_serial cs = map Inr ks"
    by auto
  from Cons.prems obtain header data where c: "c = AVSChannel_init header data"
    by (auto simp: built_def)
  show ?case
    using ks by (simp add: c AVSChannel_serial_built bind_exc_def)
qed

lemma list_index_first:
  "x \<in> set ys \<Longrightarrow>
     list_index ys x < length ys \<and> ys ! list_index ys x = x
     \<and> (\<forall>k < list_index ys x. ys ! k \<noteq> x)"
proof (induction ys)
  case Nil
  then show ?case by simp
next
  case (Cons y ys)
  show ?case
  proof (cases "y = x")
    case True
    then show ?thesis by simp
  next
    case False
    with Cons have ih: "list_index ys x < length ys" "ys ! list_index ys x = x"
      "\<forall>k < list_index ys x. ys ! k \<noteq> x" by auto
    have "\<forall>k < Suc (list_index ys x). (y # ys) ! k \<noteq> x"
      using False ih(3) by (auto simp: less_Suc_eq_0_disj)
    then show ?thesis using False ih by simp
  qed
qed

lemma list_index_le: "i < length ys \<Longrightarrow> ys ! i = x \<Longrightarrow> list_index ys x \<le> i"
  using list_index_first [of x ys] by (metis nth_mem not_le_imp_less)

lemma list_index_distinct:
  "distinct ys \<Longrightarrow> i < length ys \<Longrightarrow> list_index ys (ys ! i) = i"
proof -
  assume d: "distinct ys" and i: "i < length ys"
  have "list_index ys (ys ! i) < length ys" "ys ! list_index ys (ys ! i) = ys ! i"
    using list_index_first [of "ys ! i" ys] i by simp_all
  then show ?thesis using d i by (simp add: nth_eq_iff_index_eq)
qed

lemma getitem_position_int:
  "i < length (AVSFile_channels f) \<Longrightarrow> getitem_position f (IntKey (int i)) = Inr i"
  by (simp add: getitem_position_def py_index_def)

lemma getitem_position_end:
  "getitem_position f (IntKey (int (length (AVSFile_channels f)))) = Inl IndexError"
  by (simp add: getitem_position_def)

text \<open>
  Claim C7: for every regular file that parses, with \<open>C\<close> the channel count of its
  preamble, the length of the file object is \<open>C\<close>, positional access at every
  \<open>i < C\<close> returns the \<open>i\<close>-th channel, and positional access at \<open>C\<close> raises
  \<open>IndexError\<close>.
\<close>

theorem AVSFile_positional_access:
  assumes "AVSFile_init fs path = Inr f"
  shows "AVSFile_len f = int (length (AVSFile_channels f))
    \<and> (\<forall>i < length (AVSFile_channels f).
          AVSFile_getitem f (IntKey (int i)) = Inr (AVSFile_channels f ! i))
    \<and> AVSFile_getitem f (IntKey (AVSFile_len f)) = Inl IndexError"
proof -
  have len: "AVSFile_len f = int (length (AVSFile_channels f))"
    using AVSFile_init_channels(1) [OF assms] by (simp add: AVSFile_len_def)
  have inside: "\<forall>i < length (AVSFile_channels f).
      AVSFile_getitem f (IntKey (int i)) = Inr (AVSFile_channels f ! i)"
    by (simp add: AVSFile_getitem_def getitem_position_int bind_exc_def)
  have outside: "AVSFile_getitem f (IntKey (AVSFile_len f)) = Inl IndexError"
    by (simp add: len AVSFile_getitem_def getitem_position_end bind_exc_def)
  from len inside outside show ?thesis by blast
qed

text \<open>
  Claim C8: for every channel of a parsed regular file, at position \<open>i\<close>, the lookup
  by the channel's serial number succeeds and reads the list of channels at the first
  position \<open>j\<close> whose serial number is that text.  When the serial numbers of the file
  are distinct, \<open>j = i\<close>: the lookup returns the object that positional access at \<open>i\<close>
  returns.
\<close>

theorem AVSFile_serial_lookup:
  assumes "AVSFile_init fs path = Inr f" and "i < length (AVSFile_channels f)"
  shows "\<exists>t j. AVSChannel_serial (AVSFile_channels f ! i) = Inr (PyStr t)
    \<and> getitem_position f (StrKey t) = Inr j
    \<and> AVSFile_getitem f (StrKey t) = Inr (AVSFile_channels f ! j)
    \<and> j \<le> i
    \<and> AVSChannel_serial (AVSFile_channels f ! j) = Inr (PyStr t)
    \<and> (\<forall>k < j. AVSChannel_serial (AVSFile_channels f ! k) \<noteq> Inr (PyStr t))
    \<and> (distinct (map AVSChannel_serial (AVSFile_channels f)) \<longrightarrow> j = i)
    \<and> getitem_position f (IntKey (int i)) = Inr i
    \<and> AVSFile_getitem f (IntKey (int i)) = Inr (AVSFile_channels f ! i)"
proof -
  let ?cs = "AVSFile_channels f"
  have b: "list_all built ?cs" using AVSFile_init_channels(2) [OF assms(1)] .
  then obtain ks where ks: "serials ?cs = Inr ks" "map AVSChannel_serial ?cs = map Inr ks"
    using serials_built by blast
  have lk: "length ks = length ?cs"
    using ks(2) by (metis length_map)
  have nth: "AVSChannel_serial (?cs ! k) = Inr (ks ! k)" if "k < length ?cs" for k
    using ks(2) that lk by (metis nth_map)
  from b assms(2) have "built (?cs ! i)" by (simp add: list_all_length)
  then obtain t where t: "AVSChannel_serial (?cs ! i) = Inr (PyStr t)"
    by (auto simp: built_def AVSChannel_serial_built)
  have kt: "ks ! i = PyStr t" using nth [OF assms(2)] t by simp
  have mem: "PyStr t \<in> set ks" using kt assms(2) lk by (metis nth_mem)
  define j where "j = list_index ks (PyStr t)"
  have j: "j < length ks" "ks ! j = PyStr t" "\<forall>k < j. ks ! k \<noteq> PyStr t"
    using list_index_first [OF mem] by (simp_all add: j_def)
  have ji: "j \<le> i" using list_index_le [of i ks "PyStr t"] kt assms(2) lk by (simp add: j_def)
  have pos: "getitem_position f (StrKey t) = Inr j"
    using ks(1) mem by (simp add: getitem_position_def bind_exc_def j_def)
  have first: "\<forall>k < j. AVSChannel_serial (?cs ! k) \<noteq> Inr (PyStr t)"
    using j(1,3) nth lk by auto
  have dist: "distinct (map AVSChannel_serial ?cs) \<longrightarrow> j = i"
  proof
    assume "distinct (map AVSChannel_serial ?cs)"
    then have "distinct ks" using ks(2) by (simp add: distinct_map)
    then show "j = i" using list_index_distinct [of ks i] kt assms(2) lk by (simp add: j_def)
  qed
  have "AVSChannel_serial (?cs ! j) = Inr (PyStr t)" using nth [of j] j(1,2) lk by simp
  moreover have "AVSFile_getitem f (StrKey t) = Inr (?cs ! j)"
    by (simp add: AVSFile_getitem_def pos bind_exc_def)
  moreover have "AVSFile_getitem f (IntKey (int i)) = Inr (?cs ! i)"
    using assms(2) by (simp add: AVSFile_getitem_def getitem_position_int bind_exc_def)
  ultimately show ?thesis
    using t pos ji first dist getitem_position_int [OF assms(2)] by blast
qed


lemma example_channel_serials:
  "AVSChannel_serial (AVSFile_channels example_file ! 0) = Inr (PyStr (ascii ''1905123U1''))"
  "AVSChannel_serial (AVSFile_channels example_file ! 1) = Inr (PyStr (ascii ''1905124U1''))"
  by (simp_all add: example_file_def AVSChannel_serial_built example_serials decode_ignore_def
      utf8_step_def ascii_def)

theorem AVSFile_positional_access_witness:
  "AVSFile_init example_fs ''two.raw8'' = Inr example_file
   \<and> AVSFile_len example_file = 2
   \<and> AVSFile_getitem example_file (IntKey 0) = Inr (AVSFile_channels example_file ! 0)
   \<and> AVSFile_getitem example_file (IntKey 1) = Inr (AVSFile_channels example_file ! 1)
   \<and> AVSFile_getitem example_file (IntKey 2) = Inl IndexError"
proof -
  have l: "length (AVSFile_channels example_file) = 2"
    by (simp add: example_file_def)
  note t = AVSFile_positional_access [OF example_parse]
  from t l have a: "AVSFile_len example_file = 2"
    by simp
  from t l have b: "\<forall>i<2. AVSFile_getitem example_file (IntKey (int i))
                   = Inr (AVSFile_channels example_file ! i)"
    by simp
  from t a have c: "AVSFile_getitem example_file (IntKey 2) = Inl IndexError"
    by metis
  from b [rule_format, of 0]
  have b0: "AVSFile_getitem example_file (IntKey 0) = Inr (AVSFile_channels example_file ! 0)"
    by simp
  from b [rule_format, of 1]
  have b1: "AVSFile_getitem example_file (IntKey 1) = Inr (AVSFile_channels example_file ! 1)"
    by simp
  from a b0 b1 c example_parse show ?thesis by simp
qed

theorem AVSFile_serial_lookup_witness:
  "AVSFile_init example_fs ''two.raw8'' = Inr example_file
   \<and> distinct (map AVSChannel_serial (AVSFile_channels example_file))
   \<and> AVSChannel_serial (AVSFile_channels example_file ! 1) = Inr (PyStr (ascii ''1905124U1''))
   \<and> getitem_position example_file (StrKey (ascii ''1905124U1'')) = Inr 1
   \<and> getitem_position example_file (IntKey 1) = Inr 1
   \<and> AVSFile_getitem example_file (StrKey (ascii ''1905124U1''))
       = AVSFile_getitem example_file (IntKey 1)"
proof -
  have l: "AVSFile_channels example_file
             = [AVSFile_channels example_file ! 0, AVSFile_channels example_file ! 1]"
    by (simp add: example_file_def)
  have d: "distinct (map AVSChannel_serial (AVSFile_channels example_file))"
    by (subst l) (simp add: example_channel_serials [simplified] ascii_def)
  have i: "1 < length (AVSFile_channels example_file)"
    by (simp add: example_file_def)
  from AVSFile_serial_lookup [OF example_parse i] d example_channel_serials(2)
  have "getitem_position example_file (StrKey (ascii ''1905124U1'')) = Inr 1
    \<and> AVSFile_getitem example_file (StrKey (ascii ''1905124U1''))
        = Inr (AVSFile_channels example_file ! 1)
    \<and> getitem_position example_file (IntKey 1) = Inr 1
    \<and> AVSFile_getitem example_file (IntKey 1) = Inr (AVSFile_channels example_file ! 1)"
    by auto
  with d example_channel_serials(2) example_parse show ?thesis by simp
qed


end
